theory Spec2Isabelle
  imports Main
begin

section \<open>Errors raised by the extended-backpropagation code\<close>

text \<open>
  The Python sources signal every failure by raising a built-in exception. The exception
  classes that occur are kept as constructors; the payload is the message (or, for a
  formatted message, the template and its arguments). The spec calls the
  \<^verbatim>\<open>AttributeError\<close> of the strategy classes \<open>UnknownStrategy\<close> and the
  \<^verbatim>\<open>ValueError\<close> of the hooks \<open>ShapeError\<close>.
\<close>

datatype error =
    ValueError string
  | AttributeError string string "string list"
  | NameError string
  | IndexError string
  | RuntimeError string
  | SizeMismatch
  | HessianUndefined

text \<open>
  The last two are the spec's names for the failures of the parallel composite and of the
  loss derivatives, whose code is not among the sources.
\<close>

section \<open>Strategy registry (backpack/secondorder/strategies.py)\<close>

subsection \<open>LossHessianStrategy\<close>

definition LHS_EXACT :: string where "LHS_EXACT = ''exact''"
definition LHS_SAMPLING :: string where "LHS_SAMPLING = ''sampling''"
definition LHS_AVERAGE :: string where "LHS_AVERAGE = ''average''"

definition LHS_CHOICES :: "string list" where
  "LHS_CHOICES = [LHS_EXACT, LHS_SAMPLING, LHS_AVERAGE]"

definition LHS_check_exists :: "string \<Rightarrow> error + unit" where
  "LHS_check_exists strategy =
     (if strategy \<notin> set LHS_CHOICES
      then Inl (AttributeError ''Unknown loss Hessian strategy: {}. Expecting one of {}''
                  strategy LHS_CHOICES)
      else Inr ())"

subsection \<open>BackpropStrategy\<close>

definition BS_SQRT :: string where "BS_SQRT = ''sqrt''"
definition BS_BATCH_AVERAGE :: string where "BS_BATCH_AVERAGE = ''average''"

definition BS_CHOICES :: "string list" where
  "BS_CHOICES = [BS_BATCH_AVERAGE, BS_SQRT]"

definition BS_check_exists :: "string \<Rightarrow> error + unit" where
  "BS_check_exists strategy =
     (if strategy \<notin> set BS_CHOICES
      then Inl (AttributeError ''Unknown backpropagation strategy: {}. Expect {}''
                  strategy BS_CHOICES)
      else Inr ())"

definition is_batch_average :: "string \<Rightarrow> error + bool" where
  "is_batch_average strategy =
     (case BS_check_exists strategy of
        Inl e \<Rightarrow> Inl e
      | Inr _ \<Rightarrow> Inr (strategy = BS_BATCH_AVERAGE))"

definition is_sqrt :: "string \<Rightarrow> error + bool" where
  "is_sqrt strategy =
     (case BS_check_exists strategy of
        Inl e \<Rightarrow> Inl e
      | Inr _ \<Rightarrow> Inr (strategy = BS_SQRT))"

subsection \<open>ExpectationApproximation\<close>

definition EA_BOTEV_MARTENS :: string where "EA_BOTEV_MARTENS = ''E[J^T E(H) J]''"
definition EA_CHEN :: string where "EA_CHEN = ''E(J^T) E(H) E(J)''"

definition EA_CHOICES :: "string list" where
  "EA_CHOICES = [EA_BOTEV_MARTENS, EA_CHEN]"

definition EA_check_exists :: "string \<Rightarrow> error + unit" where
  "EA_check_exists strategy =
     (if strategy \<notin> set EA_CHOICES
      then Inl (AttributeError ''Unknown EA strategy: {}. Expect {}'' strategy EA_CHOICES)
      else Inr ())"

definition should_average_param_jac :: "string \<Rightarrow> error + bool" where
  "should_average_param_jac strategy =
     (case EA_check_exists strategy of
        Inl e \<Rightarrow> Inl e
      | Inr _ \<Rightarrow> Inr (strategy = EA_CHEN))"

section \<open>Tensors of the host library\<close>

text \<open>
  A tensor, as the hooks see it, is its shape, its entries in row-major order of their
  indices, and the flag that says whether it takes part in differentiation. How the
  host lays the entries out in memory (strides, memory format) is not held in these
  three fields: it sits in the extension slot of the record, whose type \<open>'l\<close> stays
  open. Entries range over any commutative semiring, so that the identities proved are
  those of exact arithmetic.
\<close>

record 'a tensor =
  shape :: "nat list"
  data :: "'a list"
  requires_grad :: bool

text \<open>A parameter is a tensor that may carry the artifacts of the extensions as attributes.\<close>

record ('a, 'l) parameter = "'a tensor" +
  grad_batch :: "('a, 'l) tensor_scheme option"
  sum_grad_squared :: "('a, 'l) tensor_scheme option"

definition and_then :: "error + 'a \<Rightarrow> ('a \<Rightarrow> error + 'b) \<Rightarrow> error + 'b" where
  "and_then r f = (case r of Inl e \<Rightarrow> Inl e | Inr x \<Rightarrow> f x)"

definition numel :: "('a, 'm) tensor_scheme \<Rightarrow> nat" where
  "numel t = prod_list (shape t)"

text \<open>\<^verbatim>\<open>t.size(d)\<close>\<close>

definition size_at :: "('a, 'm) tensor_scheme \<Rightarrow> nat \<Rightarrow> error + nat" where
  "size_at t d =
     (if d < length (shape t) then Inr (shape t ! d)
      else Inl (IndexError ''Dimension out of range''))"

text \<open>\<^verbatim>\<open>t.clone()\<close> and \<^verbatim>\<open>t.detach()\<close>: the same entries, cut off from the graph.\<close>

definition clone :: "('a, 'l) tensor_scheme \<Rightarrow> ('a, 'l) tensor_scheme" where
  "clone t = t"

definition detach :: "('a, 'l) tensor_scheme \<Rightarrow> ('a, 'l) tensor_scheme" where
  "detach t = t\<lparr>requires_grad := False\<rparr>"

subsection \<open>What the operations of the host return\<close>

text \<open>
  The sizes that \<^verbatim>\<open>t.view(*sizes)\<close> gives to a tensor of \<open>n\<close> entries. One size may
  be \<open>-1\<close> and is then inferred from \<open>n\<close>.
\<close>

definition infer_size :: "int list \<Rightarrow> nat \<Rightarrow> error + nat list" where
  "infer_size sizes n =
     (if \<exists>d \<in> set sizes. d < -1 then Inl (RuntimeError ''invalid shape dimension'')
      else
        (case filter (\<lambda>d. d = -1) sizes of
           [] \<Rightarrow>
             if prod_list (map nat sizes) = n then Inr (map nat sizes)
             else Inl (RuntimeError ''shape is invalid for input size'')
         | [_] \<Rightarrow>
             (let p = prod_list (map nat (filter (\<lambda>d. d \<noteq> -1) sizes))
              in if p \<noteq> 0 \<and> n mod p = 0
                 then Inr (map (\<lambda>d. if d = -1 then n div p else nat d) sizes)
                 else Inl (RuntimeError ''shape is invalid for input size''))
         | _ \<Rightarrow> Inl (RuntimeError ''only one dimension can be inferred'')))"

text \<open>
  The entries of \<^verbatim>\<open>t.sum(d)\<close> for a tensor of shape \<open>s\<close> with entries \<open>xs\<close> and
  \<open>d < length s\<close>: axis \<open>d\<close> is summed out. The entry at (outer index \<open>oi\<close>, inner
  index \<open>i\<close>) adds the entries at \<open>(oi, j, i)\<close> over \<open>j\<close>.
\<close>

definition summed_out :: "nat list \<Rightarrow> 'a::comm_semiring_1 list \<Rightarrow> nat \<Rightarrow> 'a list" where
  "summed_out s xs d =
     (let outer = prod_list (take d s);
          n = s ! d;
          inner = prod_list (drop (Suc d) s)
      in concat (map (\<lambda>oi. map (\<lambda>i.
           sum_list (map (\<lambda>j. xs ! ((oi * n + j) * inner + i)) [0..<n]))
           [0..<inner]) [0..<outer]))"

text \<open>
  Broadcasting of two sizes of one axis: they agree or one of them is 1; the axis of
  size 1 is read at index 0 throughout.
\<close>

definition broadcastable :: "nat \<Rightarrow> nat \<Rightarrow> bool" where
  "broadcastable m n = (m = n \<or> m = 1 \<or> n = 1)"

definition broadcast_size :: "nat \<Rightarrow> nat \<Rightarrow> nat" where
  "broadcast_size m n = (if m = 1 then n else m)"

definition broadcast_index :: "nat \<Rightarrow> nat \<Rightarrow> nat" where
  "broadcast_index n i = (if n = 1 then 0 else i)"

text \<open>
  The entries of \<^verbatim>\<open>einsum('blj,bkj->bkl', (X, Y))\<close> for operands of shapes \<open>sx\<close>,
  \<open>sy\<close> and entries \<open>xs\<close>, \<open>ys\<close>: for every \<open>b\<close>, \<open>k\<close>, \<open>l\<close> the sum over \<open>j\<close> of
  \<open>X[b,l,j] * Y[b,k,j]\<close>.
\<close>

definition contract_blj_bkj_bkl ::
    "nat list \<Rightarrow> 'a::comm_semiring_1 list \<Rightarrow> nat list \<Rightarrow> 'a list \<Rightarrow> 'a list" where
  "contract_blj_bkj_bkl sx xs sy ys =
     (let b = broadcast_size (sx ! 0) (sy ! 0); l = sx ! 1;
          j = broadcast_size (sx ! 2) (sy ! 2); k = sy ! 1
      in concat (map (\<lambda>bi. concat (map (\<lambda>ki. map (\<lambda>li.
           sum_list (map (\<lambda>ji.
               xs ! ((broadcast_index (sx ! 0) bi * l + li) * (sx ! 2) + broadcast_index (sx ! 2) ji)
             * ys ! ((broadcast_index (sy ! 0) bi * k + ki) * (sy ! 2) + broadcast_index (sy ! 2) ji))
             [0..<j]))
           [0..<l]) [0..<k])) [0..<b]))"

text \<open>
  The entries of \<^verbatim>\<open>einsum('bml,bkl->bmk', (A, C))\<close>: for every \<open>b\<close>, \<open>m\<close>, \<open>k\<close> the
  sum over \<open>l\<close> of \<open>A[b,m,l] * C[b,k,l]\<close>.
\<close>

definition contract_bml_bkl_bmk ::
    "nat list \<Rightarrow> 'a::comm_semiring_1 list \<Rightarrow> nat list \<Rightarrow> 'a list \<Rightarrow> 'a list" where
  "contract_bml_bkl_bmk sa as sc cs =
     (let b = broadcast_size (sa ! 0) (sc ! 0); m = sa ! 1;
          l = broadcast_size (sa ! 2) (sc ! 2); k = sc ! 1
      in concat (map (\<lambda>bi. concat (map (\<lambda>mi. map (\<lambda>ki.
           sum_list (map (\<lambda>li.
               as ! ((broadcast_index (sa ! 0) bi * m + mi) * (sa ! 2) + broadcast_index (sa ! 2) li)
             * cs ! ((broadcast_index (sc ! 0) bi * k + ki) * (sc ! 2) + broadcast_index (sc ! 2) li))
             [0..<l]))
           [0..<k]) [0..<m])) [0..<b]))"

subsection \<open>The host as a parameter\<close>

text \<open>
  The tensor operations that \<^verbatim>\<open>conv2d.py\<close> calls belong to the host library. Whether
  one of them returns or raises depends on the host and on the layout of its argument
  (a view of a tensor whose strides do not fit raises; an \<^verbatim>\<open>einsum\<close> may or may not
  broadcast), so the operations are parameters of the hooks.
\<close>

record ('a, 'l) torch =
  torch_view :: "('a, 'l) tensor_scheme \<Rightarrow> int list \<Rightarrow> error + ('a, 'l) tensor_scheme"
  torch_sum :: "('a, 'l) tensor_scheme \<Rightarrow> nat \<Rightarrow> error + ('a, 'l) tensor_scheme"
  torch_pow2 :: "('a, 'l) tensor_scheme \<Rightarrow> error + ('a, 'l) tensor_scheme"
  einsum_blj_bkj_bkl ::
    "('a, 'l) tensor_scheme \<Rightarrow> ('a, 'l) tensor_scheme \<Rightarrow> error + ('a, 'l) tensor_scheme"
  einsum_bml_bkl_bmk ::
    "('a, 'l) tensor_scheme \<Rightarrow> ('a, 'l) tensor_scheme \<Rightarrow> error + ('a, 'l) tensor_scheme"


section \<open>Extension context (bpexts/gradient/config.py)\<close>

text \<open>
  Modelled from the spec: the module \<^verbatim>\<open>config\<close>, with the object \<^verbatim>\<open>CTX\<close> and the
  extension identifiers, is not among the sources. The context holds the set of
  extensions that are requested and the square-root factors that are being
  backpropagated (the attributes \<^verbatim>\<open>_backpropagated_sqrt_h\<close> and
  \<^verbatim>\<open>_backpropagated_sqrt_h_signs\<close>, which the ReLU extension reads);
  \<^verbatim>\<open>CTX.is_active(e)\<close> asks whether \<open>e\<close> is requested.
\<close>

datatype extension = BATCH_GRAD | SUM_GRAD_SQUARED | DIAG_H

record 'a ctx =
  active :: "extension set"
  backpropagated_sqrt_h :: "'a tensor list"
  backpropagated_sqrt_h_signs :: "int list"

definition is_active :: "('a, 'm) ctx_scheme \<Rightarrow> extension \<Rightarrow> bool" where
  "is_active c e = (e \<in> active c)"

section \<open>Convolution layer with first-order extensions (bpexts/gradient/conv2d.py)\<close>

text \<open>
  The fields of the layer that the hooks read or write: the two parameters (the bias may
  be absent), the number of output channels, the patch extraction \<^verbatim>\<open>self.unfold\<close> (an
  operator of the host library, kept as a field as in the source) and the buffer
  \<^verbatim>\<open>input\<close>, which is absent until the first forward pass. A hook returns the exception
  it raised, if any, together with the layer as it is left.
\<close>

record ('a, 'l) conv2d =
  weight :: "('a, 'l) parameter"
  bias :: "('a, 'l) parameter option"
  out_channels :: nat
  unfold :: "('a, 'l) tensor_scheme \<Rightarrow> error + ('a, 'l) tensor_scheme"
  input :: "('a, 'l) tensor_scheme option"

definition store_input :: "('a, 'l, 'm) conv2d_scheme \<Rightarrow> ('a, 'l) tensor_scheme list
    \<Rightarrow> error option \<times> ('a, 'l, 'm) conv2d_scheme" where
  "store_input module inp =
     (if \<not> length inp = 1 then
        (Some (ValueError ''Cannot handle multi-input scenario''), module)
      else if \<not> length (shape (inp ! 0)) = 4 then
        (Some (ValueError ''Expecting 4D input (batch, channel, x, y)''), module)
      else (None, module\<lparr>input := Some (detach (clone (inp ! 0)))\<rparr>))"

text \<open>\<^verbatim>\<open>self.input\<close>: reading the buffer before it is registered raises.\<close>

definition get_input :: "('a, 'l, 'm) conv2d_scheme \<Rightarrow> error + ('a, 'l) tensor_scheme" where
  "get_input self =
     (case input self of
        None \<Rightarrow> Inl (AttributeError ''object has no attribute {}'' ''input'' [])
      | Some x \<Rightarrow> Inr x)"

text \<open>\<^verbatim>\<open>_compute_bias_grad_batch\<close>\<close>

definition compute_bias_grad_batch ::
    "('a, 'l) torch \<Rightarrow> ('a, 'l) tensor_scheme \<Rightarrow> error + ('a, 'l) tensor_scheme" where
  "compute_bias_grad_batch T grad_output =
     and_then (torch_sum T grad_output 3) (\<lambda>s. torch_sum T s 2)"

text \<open>\<^verbatim>\<open>_compute_weight_grad_batch\<close>\<close>

definition compute_weight_grad_batch ::
    "('a, 'l) torch \<Rightarrow> ('a, 'l, 'm) conv2d_scheme \<Rightarrow> ('a, 'l) tensor_scheme
     \<Rightarrow> error + ('a, 'l) tensor_scheme" where
  "compute_weight_grad_batch T self grad_output =
     and_then (size_at grad_output 0) (\<lambda>batch_size.
     let dE_dw_shape = batch_size # shape (weight self) in
     and_then (get_input self) (\<lambda>x.
     and_then (unfold self x) (\<lambda>X.
     and_then (torch_view T grad_output [int batch_size, int (out_channels self), -1]) (\<lambda>dE_dY.
     and_then (einsum_blj_bkj_bkl T X dE_dY) (\<lambda>dE_dW.
     torch_view T dE_dW (map int dE_dw_shape))))))"

text \<open>\<^verbatim>\<open>_compute_weight_sgs\<close>\<close>

definition compute_weight_sgs ::
    "('a, 'l) torch \<Rightarrow> ('a, 'l, 'm) conv2d_scheme \<Rightarrow> ('a, 'l) tensor_scheme
     \<Rightarrow> error + ('a, 'l) tensor_scheme" where
  "compute_weight_sgs T self grad_output =
     and_then (get_input self) (\<lambda>x.
     and_then (unfold self x) (\<lambda>X.
     and_then (size_at grad_output 0) (\<lambda>batch_size.
     and_then (torch_view T grad_output [int batch_size, int (out_channels self), -1]) (\<lambda>dE_dY.
     and_then (einsum_bml_bkl_bmk T dE_dY X) (\<lambda>e.
     and_then (torch_pow2 T e) (\<lambda>e2.
     and_then (torch_sum T e2 0) (\<lambda>s.
     torch_view T s (map int (shape (weight self))))))))))"

text \<open>\<^verbatim>\<open>_compute_bias_sgs\<close>\<close>

definition compute_bias_sgs ::
    "('a, 'l) torch \<Rightarrow> ('a, 'l) tensor_scheme \<Rightarrow> error + ('a, 'l) tensor_scheme" where
  "compute_bias_sgs T grad_output =
     and_then (torch_sum T grad_output 3) (\<lambda>s3.
     and_then (torch_sum T s3 2) (\<lambda>s2.
     and_then (torch_pow2 T s2) (\<lambda>sq.
     torch_sum T sq 0)))"

text \<open>
  The two methods that attach the artifacts. Each assignment happens only after its
  right-hand side has been computed; an exception leaves the layer as it is at that
  point.
\<close>

definition bias_wants_grad :: "('a, 'l, 'm) conv2d_scheme \<Rightarrow> bool" where
  "bias_wants_grad self =
     (case bias self of None \<Rightarrow> False | Some b \<Rightarrow> requires_grad b)"

definition set_bias_grad_batch ::
    "('a, 'l) tensor_scheme \<Rightarrow> ('a, 'l, 'm) conv2d_scheme \<Rightarrow> ('a, 'l, 'm) conv2d_scheme" where
  "set_bias_grad_batch t self =
     self\<lparr>bias := map_option (\<lambda>b. b\<lparr>grad_batch := Some t\<rparr>) (bias self)\<rparr>"

definition set_bias_sum_grad_squared ::
    "('a, 'l) tensor_scheme \<Rightarrow> ('a, 'l, 'm) conv2d_scheme \<Rightarrow> ('a, 'l, 'm) conv2d_scheme" where
  "set_bias_sum_grad_squared t self =
     self\<lparr>bias := map_option (\<lambda>b. b\<lparr>sum_grad_squared := Some t\<rparr>) (bias self)\<rparr>"

definition compute_grad_batch ::
    "('a, 'l) torch \<Rightarrow> ('a, 'l, 'm) conv2d_scheme \<Rightarrow> ('a, 'l) tensor_scheme
     \<Rightarrow> error option \<times> ('a, 'l, 'm) conv2d_scheme" where
  "compute_grad_batch T self grad_output =
     (case (if bias_wants_grad self then
              (case compute_bias_grad_batch T grad_output of
                 Inl e \<Rightarrow> (Some e, self)
               | Inr t \<Rightarrow> (None, set_bias_grad_batch t self))
            else (None, self)) of
        (Some e, self1) \<Rightarrow> (Some e, self1)
      | (None, self1) \<Rightarrow>
          (if requires_grad (weight self1) then
             (case compute_weight_grad_batch T self1 grad_output of
                Inl e \<Rightarrow> (Some e, self1)
              | Inr t \<Rightarrow> (None, self1\<lparr>weight := (weight self1)\<lparr>grad_batch := Some t\<rparr>\<rparr>))
           else (None, self1)))"

definition compute_sum_grad_squared ::
    "('a, 'l) torch \<Rightarrow> ('a, 'l, 'm) conv2d_scheme \<Rightarrow> ('a, 'l) tensor_scheme
     \<Rightarrow> error option \<times> ('a, 'l, 'm) conv2d_scheme" where
  "compute_sum_grad_squared T self grad_output =
     (case (if bias_wants_grad self then
              (case compute_bias_sgs T grad_output of
                 Inl e \<Rightarrow> (Some e, self)
               | Inr t \<Rightarrow> (None, set_bias_sum_grad_squared t self))
            else (None, self)) of
        (Some e, self1) \<Rightarrow> (Some e, self1)
      | (None, self1) \<Rightarrow>
          (if requires_grad (weight self1) then
             (case compute_weight_sgs T self1 grad_output of
                Inl e \<Rightarrow> (Some e, self1)
              | Inr t \<Rightarrow> (None, self1\<lparr>weight := (weight self1)\<lparr>sum_grad_squared := Some t\<rparr>\<rparr>))
           else (None, self1)))"

text \<open>The backward hook. \<^verbatim>\<open>grad_input\<close> is received and not used.\<close>

definition compute_first_order_info ::
    "('a, 'l) torch \<Rightarrow> ('b, 'n) ctx_scheme \<Rightarrow> ('a, 'l, 'm) conv2d_scheme
     \<Rightarrow> ('a, 'l) tensor_scheme list \<Rightarrow> ('a, 'l) tensor_scheme list
     \<Rightarrow> error option \<times> ('a, 'l, 'm) conv2d_scheme" where
  "compute_first_order_info T CTX module grad_input grad_output =
     (if \<not> length grad_output = 1 then
        (Some (ValueError ''Cannot handle multi-output scenario''), module)
      else
        (let grad_out = detach (clone (grad_output ! 0)) in
         (case (if is_active CTX BATCH_GRAD then compute_grad_batch T module grad_out
                else (None, module)) of
            (Some e, module1) \<Rightarrow> (Some e, module1)
          | (None, module1) \<Rightarrow>
              (if is_active CTX SUM_GRAD_SQUARED then compute_sum_grad_squared T module1 grad_out
               else (None, module1)))))"

subsection \<open>The two candidate statistics, in the spec's words\<close>






subsection \<open>What the backward hook may change\<close>

text \<open>
  \<open>artifacts_only gb sgs p p'\<close>: the parameter \<open>p'\<close> is \<open>p\<close> except for its two
  artifacts; \<^verbatim>\<open>grad_batch\<close> differs only if \<open>gb\<close> holds and \<open>p\<close> requires a gradient,
  \<^verbatim>\<open>sum_grad_squared\<close> only if \<open>sgs\<close> holds and \<open>p\<close> requires a gradient.
  \<open>hook_frame gb sgs m m'\<close>: the layer \<open>m'\<close> is \<open>m\<close> except for its parameters, which
  are related in that way; an absent bias stays absent.
\<close>

definition artifacts_only ::
    "bool \<Rightarrow> bool \<Rightarrow> ('a, 'l) parameter \<Rightarrow> ('a, 'l) parameter \<Rightarrow> bool" where
  "artifacts_only gb sgs p p' \<longleftrightarrow>
     p' = p\<lparr>grad_batch := grad_batch p', sum_grad_squared := sum_grad_squared p'\<rparr> \<and>
     (grad_batch p' \<noteq> grad_batch p \<longrightarrow> gb \<and> requires_grad p) \<and>
     (sum_grad_squared p' \<noteq> sum_grad_squared p \<longrightarrow> sgs \<and> requires_grad p)"

definition hook_frame ::
    "bool \<Rightarrow> bool \<Rightarrow> ('a, 'l, 'm) conv2d_scheme \<Rightarrow> ('a, 'l, 'm) conv2d_scheme \<Rightarrow> bool" where
  "hook_frame gb sgs m m' \<longleftrightarrow>
     m' = m\<lparr>weight := weight m', bias := bias m'\<rparr> \<and>
     artifacts_only gb sgs (weight m) (weight m') \<and>
     rel_option (artifacts_only gb sgs) (bias m) (bias m')"

section \<open>Diagonal-Hessian extension for ReLU (bpexts/gradient/diagh/relu.py)\<close>

text \<open>
  The names that the file binds at module level, by its imports, its class statement and
  its final assignment, and the built-in names that it uses. A name that occurs free in
  a function body is looked up here when the body runs.
\<close>

definition relu_module_names :: "string list" where
  "relu_module_names =
     [''torch'', ''CTX'', ''einsum'', ''BackpropExtension'', ''jac_mat_prod'', ''DIAG_H'',
      ''DiagHReLU'', ''EXTENSIONS'']"

definition builtin_names :: "string list" where
  "builtin_names = [''super'', ''enumerate'']"

definition lookup_global :: "string \<Rightarrow> error + unit" where
  "lookup_global name =
     (if name \<in> set relu_module_names \<or> name \<in> set builtin_names then Inr ()
      else Inl (NameError name))"

text \<open>The ReLU module, with the input that the extension mechanism stored on it.\<close>

record 'a relu =
  input0 :: "'a tensor"

text \<open>
  The method \<^verbatim>\<open>backpropagate_sqrt_h\<close>: every factor is replaced by its product with
  the Jacobian, and the list is stored back. \<^verbatim>\<open>jac_mat_prod\<close> comes from a module
  that is not among the sources and is a parameter.
\<close>

definition backpropagate_sqrt_h ::
    "(('a, 'm) relu_scheme \<Rightarrow> 'g \<Rightarrow> 'g \<Rightarrow> 'a tensor \<Rightarrow> 'a tensor) \<Rightarrow> ('a, 'n) ctx_scheme
     \<Rightarrow> ('a, 'm) relu_scheme \<Rightarrow> 'g \<Rightarrow> 'g \<Rightarrow> 'a tensor list \<Rightarrow> int list
     \<Rightarrow> error option \<times> ('a, 'n) ctx_scheme" where
  "backpropagate_sqrt_h jac_mat_prod CTX module grad_input grad_output sqrt_h_outs sqrt_h_outs_signs =
     (None, CTX\<lparr>backpropagated_sqrt_h :=
                  map (\<lambda>sqrt_h. jac_mat_prod module grad_input grad_output sqrt_h) sqrt_h_outs\<rparr>)"

text \<open>
  \<^verbatim>\<open>DiagHReLU.apply\<close>. The call names \<^verbatim>\<open>backpropagate_sqrt_h\<close> without \<^verbatim>\<open>self\<close>,
  so the name is looked up among the globals before anything is called. (Were the name
  bound, the call would go on; the method stands in that branch.)
\<close>

definition DiagHReLU_apply ::
    "(('a, 'm) relu_scheme \<Rightarrow> 'g \<Rightarrow> 'g \<Rightarrow> 'a tensor \<Rightarrow> 'a tensor) \<Rightarrow> ('a, 'n) ctx_scheme
     \<Rightarrow> ('a, 'm) relu_scheme \<Rightarrow> 'g \<Rightarrow> 'g \<Rightarrow> error option \<times> ('a, 'n) ctx_scheme" where
  "DiagHReLU_apply jac_mat_prod CTX module grad_input grad_output =
     (let sqrt_h_outs = backpropagated_sqrt_h CTX;
          sqrt_h_outs_signs = backpropagated_sqrt_h_signs CTX
      in if requires_grad (input0 module) then
           (case lookup_global ''backpropagate_sqrt_h'' of
              Inl e \<Rightarrow> (Some e, CTX)
            | Inr _ \<Rightarrow> backpropagate_sqrt_h jac_mat_prod CTX module grad_input grad_output
                         sqrt_h_outs sqrt_h_outs_signs)
         else (None, CTX))"

section \<open>Parallel composite (bpexts/hbp/parallel)\<close>

text \<open>
  Modelled from the spec: the module that defines \<^verbatim>\<open>HBPParallel\<close>, with
  \<^verbatim>\<open>total_out_features\<close>, \<^verbatim>\<open>compute_out_features_list\<close> and \<^verbatim>\<open>split\<close>, is not
  among the sources; only its test is. A composite is the list of the
  output-feature counts of its siblings. A merge into a target number of blocks packs
  the unit features into blocks of size \<open>\<lceil>total / target\<rceil>\<close> or \<open>\<lfloor>total / target\<rfloor>\<close>,
  the larger blocks first, so that the sizes add up to the total; a target that is at
  least the total gives unit blocks. The spec gives no meaning to a target of zero.
\<close>

definition total_out_features :: "nat list \<Rightarrow> nat" where
  "total_out_features siblings = sum_list siblings"

text \<open>
  Modelled from the spec: \<^verbatim>\<open>compute_out_features_list\<close> of the absent
  \<^verbatim>\<open>HBPParallel\<close>, the partition that a merge produces.
\<close>

definition compute_out_features_list :: "nat list \<Rightarrow> nat \<Rightarrow> nat list" where
  "compute_out_features_list siblings target_block_count =
     (let total = total_out_features siblings;
          larger = (total + target_block_count - 1) div target_block_count;
          smaller = total div target_block_count
      in if target_block_count \<ge> total then replicate total 1
         else replicate (total mod target_block_count) larger
              @ replicate (target_block_count - total mod target_block_count) smaller)"

text \<open>Modelled from the spec: the merge of the absent \<^verbatim>\<open>HBPParallel\<close>.\<close>

definition merge :: "nat list \<Rightarrow> nat \<Rightarrow> nat list" where
  "merge siblings target_block_count = compute_out_features_list siblings target_block_count"

text \<open>
  Modelled from the spec: \<^verbatim>\<open>split\<close> of the absent \<^verbatim>\<open>HBPParallel\<close>. It re-partitions strictly according to the sizes it is
  given and fails with \<open>SizeMismatch\<close> if they do not add up to the total.
\<close>

definition split :: "nat list \<Rightarrow> nat list \<Rightarrow> error + nat list" where
  "split siblings explicit_sizes =
     (if sum_list explicit_sizes \<noteq> total_out_features siblings then Inl SizeMismatch
      else Inr explicit_sizes)"

section \<open>Curvature of loss layers (backpack/core/derivatives)\<close>

text \<open>
  Modelled from the spec: the derivative providers of the loss layers are not among the
  sources; only their tests are. A loss layer gives, at an input, the Hessians of the
  loss with respect to that input, one per example, or nothing where its Hessian is not
  defined pointwise. The three operations are the summed Hessian, the square-root
  factors (one group per example) and the factors sampled from \<open>M\<close> draws; how a sum,
  a factor and a sampled factor are formed is left to the layer. All three fail with
  \<open>HessianUndefined\<close> where the Hessian is not defined.
\<close>

record ('x, 'h, 's) loss_layer =
  hessian_at :: "'x \<Rightarrow> 'h list option"
  sum_of :: "'h list \<Rightarrow> 'h"
  sqrt_of :: "'h \<Rightarrow> 's"
  sampled_sqrt_of :: "nat \<Rightarrow> 'h \<Rightarrow> 's"

text \<open>Modelled from the spec: \<^verbatim>\<open>sum_hessian\<close> of the absent loss derivatives.\<close>

definition sum_hessian :: "('x, 'h, 's) loss_layer \<Rightarrow> 'x \<Rightarrow> error + 'h" where
  "sum_hessian layer x =
     (case hessian_at layer x of
        None \<Rightarrow> Inl HessianUndefined
      | Some hs \<Rightarrow> Inr (sum_of layer hs))"

text \<open>Modelled from the spec: \<^verbatim>\<open>sqrt_hessian\<close> of the absent loss derivatives.\<close>

definition sqrt_hessian :: "('x, 'h, 's) loss_layer \<Rightarrow> 'x \<Rightarrow> error + 's list" where
  "sqrt_hessian layer x =
     (case hessian_at layer x of
        None \<Rightarrow> Inl HessianUndefined
      | Some hs \<Rightarrow> Inr (map (sqrt_of layer) hs))"

text \<open>Modelled from the spec: \<^verbatim>\<open>sqrt_hessian_sampled\<close> of the absent loss derivatives.\<close>

definition sqrt_hessian_sampled :: "('x, 'h, 's) loss_layer \<Rightarrow> 'x \<Rightarrow> nat \<Rightarrow> error + 's list" where
  "sqrt_hessian_sampled layer x mc_samples =
     (case hessian_at layer x of
        None \<Rightarrow> Inl HessianUndefined
      | Some hs \<Rightarrow> Inr (map (sampled_sqrt_of layer mc_samples) hs))"

section \<open>A host on contiguous tensors, and concrete layers and inputs\<close>

text \<open>
  The tensors of this host carry no layout: they are contiguous and row-major. On such
  tensors a view raises only when the sizes do not fit the number of entries, a sum only
  when the axis is out of range, and an \<^verbatim>\<open>einsum\<close> over the two equations only when
  an operand does not have three axes or the shared axes cannot be broadcast.
\<close>

definition dense_view :: "'a tensor \<Rightarrow> int list \<Rightarrow> error + 'a tensor" where
  "dense_view t sizes = and_then (infer_size sizes (numel t)) (\<lambda>s. Inr (t\<lparr>shape := s\<rparr>))"

definition dense_sum :: "'a::comm_semiring_1 tensor \<Rightarrow> nat \<Rightarrow> error + 'a tensor" where
  "dense_sum t d =
     (if shape t = [] \<and> d = 0 then Inr t
      else if d < length (shape t) then
        Inr \<lparr>shape = take d (shape t) @ drop (Suc d) (shape t),
             data = summed_out (shape t) (data t) d,
             requires_grad = requires_grad t\<rparr>
      else Inl (IndexError ''Dimension out of range''))"

definition dense_pow2 :: "'a::comm_semiring_1 tensor \<Rightarrow> error + 'a tensor" where
  "dense_pow2 t = Inr (t\<lparr>data := map (\<lambda>x. x ^ 2) (data t)\<rparr>)"

definition dense_einsum_blj_bkj_bkl ::
    "'a::comm_semiring_1 tensor \<Rightarrow> 'a tensor \<Rightarrow> error + 'a tensor" where
  "dense_einsum_blj_bkj_bkl X Y =
     (if length (shape X) = 3 \<and> length (shape Y) = 3 then
        (if broadcastable (shape X ! 0) (shape Y ! 0) \<and> broadcastable (shape X ! 2) (shape Y ! 2)
         then Inr \<lparr>shape = [broadcast_size (shape X ! 0) (shape Y ! 0), shape Y ! 1, shape X ! 1],
                   data = contract_blj_bkj_bkl (shape X) (data X) (shape Y) (data Y),
                   requires_grad = (requires_grad X \<or> requires_grad Y)\<rparr>
         else Inl (RuntimeError ''einsum: operands do not broadcast''))
      else Inl (RuntimeError ''einsum: subscripts do not match operand dimensions''))"

definition dense_einsum_bml_bkl_bmk ::
    "'a::comm_semiring_1 tensor \<Rightarrow> 'a tensor \<Rightarrow> error + 'a tensor" where
  "dense_einsum_bml_bkl_bmk A C =
     (if length (shape A) = 3 \<and> length (shape C) = 3 then
        (if broadcastable (shape A ! 0) (shape C ! 0) \<and> broadcastable (shape A ! 2) (shape C ! 2)
         then Inr \<lparr>shape = [broadcast_size (shape A ! 0) (shape C ! 0), shape A ! 1, shape C ! 1],
                   data = contract_bml_bkl_bmk (shape A) (data A) (shape C) (data C),
                   requires_grad = (requires_grad A \<or> requires_grad C)\<rparr>
         else Inl (RuntimeError ''einsum: operands do not broadcast''))
      else Inl (RuntimeError ''einsum: subscripts do not match operand dimensions''))"

definition dense :: "('a::comm_semiring_1, unit) torch" where
  "dense =
     \<lparr>torch_view = dense_view, torch_sum = dense_sum, torch_pow2 = dense_pow2,
      einsum_blj_bkj_bkl = dense_einsum_blj_bkj_bkl,
      einsum_bml_bkl_bmk = dense_einsum_bml_bkl_bmk\<rparr>"

text \<open>
  Patch extraction for a kernel of size one (stride one, no padding): every pixel is its
  own patch, so the input \<open>(B, C, H, W)\<close> is returned as \<open>(B, C, H * W)\<close>.
\<close>

definition unfold_1x1 :: "'a tensor \<Rightarrow> error + 'a tensor" where
  "unfold_1x1 x =
     (if length (shape x) = 4
      then Inr (x\<lparr>shape := [shape x ! 0, shape x ! 1, shape x ! 2 * shape x ! 3]\<rparr>)
      else Inl (RuntimeError ''Input Error: Only 4D input Tensors are supported''))"

definition plain :: "nat list \<Rightarrow> int list \<Rightarrow> int tensor" where
  "plain s d = \<lparr>shape = s, data = d, requires_grad = False\<rparr>"

definition fresh_param :: "nat list \<Rightarrow> int list \<Rightarrow> (int, unit) parameter" where
  "fresh_param s d =
     \<lparr>shape = s, data = d, requires_grad = True, grad_batch = None, sum_grad_squared = None\<rparr>"

text \<open>One input channel, one output channel, kernel of size one, with a bias.\<close>

definition conv_1x1 :: "int tensor option \<Rightarrow> (int, unit) conv2d" where
  "conv_1x1 x =
     \<lparr>weight = fresh_param [1, 1, 1, 1] [4], bias = Some (fresh_param [1] [0]),
      out_channels = 1, unfold = unfold_1x1, input = x\<rparr>"

text \<open>
  Cached inputs of one, two and three examples, and output gradients: for two examples,
  one in which both examples contribute and one in which the first example contributes
  nothing; for three examples, one in which every example contributes.
\<close>

definition x_one :: "int tensor" where "x_one = plain [1, 1, 1, 2] [2, 3]"
definition x_two :: "int tensor" where "x_two = plain [2, 1, 1, 1] [1, 1]"
definition g_two :: "int tensor" where "g_two = plain [2, 1, 1, 1] [1, 2]"

text \<open>A context in which both first-order extensions are requested.\<close>

definition ctx_first_order :: "int ctx" where
  "ctx_first_order = \<lparr>active = {BATCH_GRAD, SUM_GRAD_SQUARED}, backpropagated_sqrt_h = [],
                        backpropagated_sqrt_h_signs = []\<rparr>"

text \<open>A context with one factor in flight, and a stand-in for the Jacobian product.\<close>

definition ctx_ex :: "int ctx" where
  "ctx_ex = \<lparr>active = {DIAG_H}, backpropagated_sqrt_h = [plain [1, 2] [3, 4]],
             backpropagated_sqrt_h_signs = [1]\<rparr>"

definition jmp_ex :: "int relu \<Rightarrow> int tensor list \<Rightarrow> int tensor list \<Rightarrow> int tensor \<Rightarrow> int tensor" where
  "jmp_ex module grad_input grad_output mat = mat\<lparr>data := map (\<lambda>x. x ^ 2) (data mat)\<rparr>"

text \<open>
  A loss on lists of integers, one entry per example, whose Hessian is 2 for every
  example and is not defined for the empty batch.
\<close>

definition square_loss :: "(int list, int, int) loss_layer" where
  "square_loss =
     \<lparr>hessian_at = (\<lambda>x. if x = [] then None else Some (map (\<lambda>_. 2) x)),
      sum_of = sum_list, sqrt_of = (\<lambda>h. h), sampled_sqrt_of = (\<lambda>M h. h)\<rparr>"

chapter \<open>Verification\<close>

section \<open>Auxiliary facts about the tensor operations\<close>


lemma and_then_simps [simp]:
  "and_then (Inl e) f = Inl e" "and_then (Inr x) f = f x"
  by (simp_all add: and_then_def)
















section \<open>Forward hook of the convolution layer\<close>

text \<open>
  Claim C6. The forward hook of a convolution layer raises its shape error (a
  \<^verbatim>\<open>ValueError\<close>) and leaves the layer as it is when the number of inputs is not one,
  or when the one input is not of rank four; given one input of rank four it stores the
  detached copy of that input as the buffer \<^verbatim>\<open>input\<close>, whatever was stored before,
  and changes nothing else.
\<close>

theorem store_input_checks_and_caches:
  "(length inp \<noteq> 1 \<longrightarrow>
      store_input module inp = (Some (ValueError ''Cannot handle multi-input scenario''), module)) \<and>
   (length (shape x) \<noteq> 4 \<longrightarrow>
      store_input module [x]
        = (Some (ValueError ''Expecting 4D input (batch, channel, x, y)''), module)) \<and>
   (length (shape x) = 4 \<longrightarrow>
      store_input module [x] = (None, module\<lparr>input := Some (x\<lparr>requires_grad := False\<rparr>)\<rparr>))"
  by (simp add: store_input_def detach_def clone_def)

theorem store_input_checks_and_caches_witness:
  "store_input (conv_1x1 (Some x_one)) [x_two, x_two]
     = (Some (ValueError ''Cannot handle multi-input scenario''), conv_1x1 (Some x_one)) \<and>
   store_input (conv_1x1 (Some x_one)) [plain [2, 3] [1, 2, 3, 4, 5, 6]]
     = (Some (ValueError ''Expecting 4D input (batch, channel, x, y)''), conv_1x1 (Some x_one)) \<and>
   store_input (conv_1x1 (Some x_one)) [x_two\<lparr>requires_grad := True\<rparr>]
     = (None, conv_1x1 (Some x_two))"
proof -
  have r2: "length (shape (plain [2, 3] [1, 2, 3, 4, 5, 6])) \<noteq> 4"
    by (simp add: plain_def)
  have r4: "length (shape (x_two\<lparr>requires_grad := True\<rparr>)) = 4"
    by (simp add: x_two_def plain_def)
  have l2: "length [x_two, x_two] \<noteq> 1"
    by simp
  show ?thesis
    using store_input_checks_and_caches
            [of "[x_two, x_two]" "conv_1x1 (Some x_one)" "plain [2, 3] [1, 2, 3, 4, 5, 6]"]
      store_input_checks_and_caches
            [of "[]" "conv_1x1 (Some x_one)" "x_two\<lparr>requires_grad := True\<rparr>"]
      r2 r4 l2
    by (simp add: conv_1x1_def x_two_def plain_def)
qed

section \<open>Strategy labels\<close>

text \<open>
  Claim C7. In each of the three strategy enumerations the validation and every derived
  predicate raise the enumeration's unknown-strategy error (an \<^verbatim>\<open>AttributeError\<close>)
  for every label outside the choice set, and return for every label inside it.
\<close>

theorem strategy_validation_fails_closed:
  "(s \<notin> set LHS_CHOICES \<longrightarrow>
      LHS_check_exists s
        = Inl (AttributeError ''Unknown loss Hessian strategy: {}. Expecting one of {}'' s LHS_CHOICES)) \<and>
   (s \<in> set LHS_CHOICES \<longrightarrow> LHS_check_exists s = Inr ()) \<and>
   (s \<notin> set BS_CHOICES \<longrightarrow>
      BS_check_exists s
        = Inl (AttributeError ''Unknown backpropagation strategy: {}. Expect {}'' s BS_CHOICES) \<and>
      is_batch_average s
        = Inl (AttributeError ''Unknown backpropagation strategy: {}. Expect {}'' s BS_CHOICES) \<and>
      is_sqrt s
        = Inl (AttributeError ''Unknown backpropagation strategy: {}. Expect {}'' s BS_CHOICES)) \<and>
   (s \<in> set BS_CHOICES \<longrightarrow>
      BS_check_exists s = Inr () \<and>
      is_batch_average s = Inr (s = BS_BATCH_AVERAGE) \<and>
      is_sqrt s = Inr (s = BS_SQRT)) \<and>
   (s \<notin> set EA_CHOICES \<longrightarrow>
      EA_check_exists s = Inl (AttributeError ''Unknown EA strategy: {}. Expect {}'' s EA_CHOICES) \<and>
      should_average_param_jac s
        = Inl (AttributeError ''Unknown EA strategy: {}. Expect {}'' s EA_CHOICES)) \<and>
   (s \<in> set EA_CHOICES \<longrightarrow>
      EA_check_exists s = Inr () \<and> should_average_param_jac s = Inr (s = EA_CHEN))"
  by (simp add: LHS_check_exists_def BS_check_exists_def EA_check_exists_def
        is_batch_average_def is_sqrt_def should_average_param_jac_def)

theorem strategy_validation_fails_closed_witness:
  "(''sqrt'' \<notin> set LHS_CHOICES \<and> ''sqrt'' \<in> set BS_CHOICES \<and> ''sqrt'' \<notin> set EA_CHOICES \<and>
    isl (LHS_check_exists ''sqrt'') \<and> is_sqrt ''sqrt'' = Inr True \<and>
    is_batch_average ''sqrt'' = Inr False \<and> isl (should_average_param_jac ''sqrt'')) \<and>
   (''exact'' \<in> set LHS_CHOICES \<and> ''exact'' \<notin> set BS_CHOICES \<and>
    LHS_check_exists ''exact'' = Inr () \<and> isl (is_sqrt ''exact'') \<and>
    isl (is_batch_average ''exact'') \<and> isl (BS_check_exists ''exact'')) \<and>
   (''E(J^T) E(H) E(J)'' \<in> set EA_CHOICES \<and>
    should_average_param_jac ''E(J^T) E(H) E(J)'' = Inr True)"
proof -
  have m1: "''sqrt'' \<notin> set LHS_CHOICES" "''sqrt'' \<in> set BS_CHOICES" "''sqrt'' \<notin> set EA_CHOICES"
    by (simp_all add: LHS_CHOICES_def LHS_EXACT_def LHS_SAMPLING_def LHS_AVERAGE_def
          BS_CHOICES_def BS_SQRT_def BS_BATCH_AVERAGE_def
          EA_CHOICES_def EA_BOTEV_MARTENS_def EA_CHEN_def)
  have m2: "''exact'' \<in> set LHS_CHOICES" "''exact'' \<notin> set BS_CHOICES"
    by (simp_all add: LHS_CHOICES_def LHS_EXACT_def LHS_SAMPLING_def LHS_AVERAGE_def
          BS_CHOICES_def BS_SQRT_def BS_BATCH_AVERAGE_def)
  have m3: "''E(J^T) E(H) E(J)'' \<in> set EA_CHOICES"
    by (simp add: EA_CHOICES_def EA_BOTEV_MARTENS_def EA_CHEN_def)
  show ?thesis
    using strategy_validation_fails_closed [of "''sqrt''"]
      strategy_validation_fails_closed [of "''exact''"]
      strategy_validation_fails_closed [of "''E(J^T) E(H) E(J)''"]
      m1 m2 m3
    by (simp add: BS_SQRT_def BS_BATCH_AVERAGE_def EA_CHEN_def)
qed

section \<open>The ReLU extension for the diagonal Hessian\<close>

text \<open>
  Claim C9. When the cached input of the ReLU module requires a gradient,
  \<^verbatim>\<open>DiagHReLU.apply\<close> raises the unresolved-name error for \<^verbatim>\<open>backpropagate_sqrt_h\<close>;
  when it does not, \<^verbatim>\<open>apply\<close> returns. In both cases the context is left as it was,
  so no backpropagated square-root factor is ever updated.
\<close>

theorem diag_h_relu_apply_unresolved_name:
  "(requires_grad (input0 module) \<longrightarrow>
      DiagHReLU_apply jac_mat_prod CTX module grad_input grad_output
        = (Some (NameError ''backpropagate_sqrt_h''), CTX)) \<and>
   (\<not> requires_grad (input0 module) \<longrightarrow>
      DiagHReLU_apply jac_mat_prod CTX module grad_input grad_output = (None, CTX)) \<and>
   snd (DiagHReLU_apply jac_mat_prod CTX module grad_input grad_output) = CTX"
  by (simp add: DiagHReLU_apply_def lookup_global_def relu_module_names_def builtin_names_def)

theorem diag_h_relu_apply_unresolved_name_witness:
  "DiagHReLU_apply jmp_ex ctx_ex \<lparr>input0 = x_one\<lparr>requires_grad := True\<rparr>\<rparr> [] []
     = (Some (NameError ''backpropagate_sqrt_h''), ctx_ex) \<and>
   DiagHReLU_apply jmp_ex ctx_ex \<lparr>input0 = x_one\<rparr> [] [] = (None, ctx_ex) \<and>
   fst (backpropagate_sqrt_h jmp_ex ctx_ex \<lparr>input0 = x_one\<rparr> [] []
          (backpropagated_sqrt_h ctx_ex) (backpropagated_sqrt_h_signs ctx_ex)) = None \<and>
   backpropagated_sqrt_h (snd (backpropagate_sqrt_h jmp_ex ctx_ex \<lparr>input0 = x_one\<rparr> [] []
          (backpropagated_sqrt_h ctx_ex) (backpropagated_sqrt_h_signs ctx_ex)))
     = [plain [1, 2] [9, 16]]"
proof -
  have a: "requires_grad (input0 \<lparr>input0 = x_one\<lparr>requires_grad := True\<rparr>\<rparr>)"
    by simp
  have b: "\<not> requires_grad (input0 \<lparr>input0 = x_one\<rparr>)"
    by (simp add: x_one_def plain_def)
  have c: "backpropagated_sqrt_h (snd (backpropagate_sqrt_h jmp_ex ctx_ex \<lparr>input0 = x_one\<rparr> [] []
          (backpropagated_sqrt_h ctx_ex) (backpropagated_sqrt_h_signs ctx_ex)))
     = [plain [1, 2] [9, 16]]"
    by (simp add: backpropagate_sqrt_h_def ctx_ex_def jmp_ex_def plain_def)
  show ?thesis
    using diag_h_relu_apply_unresolved_name
            [of "\<lparr>input0 = x_one\<lparr>requires_grad := True\<rparr>\<rparr>" jmp_ex ctx_ex "[]" "[]"]
      diag_h_relu_apply_unresolved_name [of "\<lparr>input0 = x_one\<rparr>" jmp_ex ctx_ex "[]" "[]"]
      a b c
    by (simp add: backpropagate_sqrt_h_def)
qed

section \<open>Backward hook of the convolution layer\<close>

lemma artifacts_only_refl: "artifacts_only gb sgs p p"
  by (simp add: artifacts_only_def)

lemma hook_frame_refl: "hook_frame gb sgs m m"
  by (simp add: hook_frame_def artifacts_only_refl option.rel_refl)

lemma artifacts_only_trans:
  "artifacts_only a b p q \<Longrightarrow> artifacts_only a' b' q r \<Longrightarrow> artifacts_only (a \<or> a') (b \<or> b') p r"
  unfolding artifacts_only_def 
  by (cases p; cases q; cases r) auto

lemma hook_frame_trans:
  assumes "hook_frame a b m m1" and "hook_frame a' b' m1 m2"
  shows "hook_frame (a \<or> a') (b \<or> b') m m2"
proof -
  have "rel_option (artifacts_only (a \<or> a') (b \<or> b')) (bias m) (bias m2)"
    using assms unfolding hook_frame_def
    by (cases "bias m"; cases "bias m1"; cases "bias m2") (auto intro: artifacts_only_trans)
  moreover have "artifacts_only (a \<or> a') (b \<or> b') (weight m) (weight m2)"
    using assms unfolding hook_frame_def by (blast intro: artifacts_only_trans)
  moreover have "m2 = m\<lparr>weight := weight m2, bias := bias m2\<rparr>"
    using assms unfolding hook_frame_def by (cases m; cases m1; cases m2) auto
  ultimately show ?thesis
    unfolding hook_frame_def by blast
qed

lemma compute_grad_batch_frame:
  "hook_frame True False m (snd (compute_grad_batch T m g))"
  unfolding compute_grad_batch_def hook_frame_def artifacts_only_def bias_wants_grad_def
    set_bias_grad_batch_def
  by (cases "bias m") (auto split: sum.splits option.splits)

lemma compute_sum_grad_squared_frame:
  "hook_frame False True m (snd (compute_sum_grad_squared T m g))"
  unfolding compute_sum_grad_squared_def hook_frame_def artifacts_only_def bias_wants_grad_def
    set_bias_sum_grad_squared_def
  by (cases "bias m") (auto split: sum.splits option.splits)

lemma compute_first_order_info_frame:
  "hook_frame (is_active CTX BATCH_GRAD) (is_active CTX SUM_GRAD_SQUARED) m
     (snd (compute_first_order_info T CTX m gi go))"
proof (cases "length go = 1")
  case False
  then show ?thesis
    by (simp add: compute_first_order_info_def hook_frame_refl)
next
  case True
  define g where "g = detach (clone (go ! 0))"
  define r1 where "r1 = (if is_active CTX BATCH_GRAD then compute_grad_batch T m g else (None, m))"
  define r2 where "r2 = (if is_active CTX SUM_GRAD_SQUARED then compute_sum_grad_squared T (snd r1) g
                        else (None, snd r1))"
  have f1: "hook_frame (is_active CTX BATCH_GRAD) False m (snd r1)"
    using compute_grad_batch_frame[of m T g] by (simp add: r1_def hook_frame_refl)
  have f2: "hook_frame False (is_active CTX SUM_GRAD_SQUARED) (snd r1) (snd r2)"
    using compute_sum_grad_squared_frame[of "snd r1" T g] by (simp add: r2_def hook_frame_refl)
  have f12: "hook_frame (is_active CTX BATCH_GRAD) (is_active CTX SUM_GRAD_SQUARED) m (snd r2)"
    using hook_frame_trans[OF f1 f2] by simp
  have f11: "hook_frame (is_active CTX BATCH_GRAD) (is_active CTX SUM_GRAD_SQUARED) m (snd r1)"
    using hook_frame_trans[OF f1 hook_frame_refl[of False "is_active CTX SUM_GRAD_SQUARED"]] by simp
  have "snd (compute_first_order_info T CTX m gi go) = (case fst r1 of Some e \<Rightarrow> snd r1 | None \<Rightarrow> snd r2)"
    using True
    by (simp add: compute_first_order_info_def Let_def g_def[symmetric] r1_def[symmetric] r2_def
          split: prod.splits option.splits)
  then show ?thesis
    using f12 f11 by (simp split: option.splits)
qed

text \<open>
  Claim C10. Whatever the backward hook of the convolution layer returns or raises, the
  layer it leaves differs from the layer it found only in the artifacts of the
  parameters: \<^verbatim>\<open>grad_batch\<close> of a parameter is changed only if the batch-gradient
  extension is active and the parameter requires a gradient, \<^verbatim>\<open>sum_grad_squared\<close> only
  if the sum-of-squared-gradients extension is active and the parameter requires a
  gradient; a layer without bias is left without bias; the buffer, the other fields of
  the layer and the other attributes of the parameters are as before.
\<close>

theorem backward_hook_attaches_only_requested_artifacts:
  assumes "compute_first_order_info T CTX module grad_input grad_output = (r, module')"
  shows "out_channels module' = out_channels module \<and> unfold module' = unfold module \<and>
         input module' = input module \<and> conv2d.more module' = conv2d.more module \<and>
         weight module' = (weight module)\<lparr>grad_batch := grad_batch (weight module'),
                              sum_grad_squared := sum_grad_squared (weight module')\<rparr> \<and>
         (grad_batch (weight module') \<noteq> grad_batch (weight module) \<longrightarrow>
            is_active CTX BATCH_GRAD \<and> requires_grad (weight module)) \<and>
         (sum_grad_squared (weight module') \<noteq> sum_grad_squared (weight module) \<longrightarrow>
            is_active CTX SUM_GRAD_SQUARED \<and> requires_grad (weight module)) \<and>
         (bias module = None \<longrightarrow> bias module' = None) \<and>
         (\<forall>b. bias module = Some b \<longrightarrow>
            (\<exists>b'. bias module' = Some b' \<and>
               b' = b\<lparr>grad_batch := grad_batch b', sum_grad_squared := sum_grad_squared b'\<rparr> \<and>
               (grad_batch b' \<noteq> grad_batch b \<longrightarrow> is_active CTX BATCH_GRAD \<and> requires_grad b) \<and>
               (sum_grad_squared b' \<noteq> sum_grad_squared b \<longrightarrow>
                  is_active CTX SUM_GRAD_SQUARED \<and> requires_grad b)))"
proof -
  have fr: "hook_frame (is_active CTX BATCH_GRAD) (is_active CTX SUM_GRAD_SQUARED) module module'"
    using compute_first_order_info_frame[of CTX module T grad_input grad_output] assms by simp
  then have m: "module' = module\<lparr>weight := weight module', bias := bias module'\<rparr>"
    and w: "artifacts_only (is_active CTX BATCH_GRAD) (is_active CTX SUM_GRAD_SQUARED)
              (weight module) (weight module')"
    and b: "rel_option (artifacts_only (is_active CTX BATCH_GRAD) (is_active CTX SUM_GRAD_SQUARED))
              (bias module) (bias module')"
    unfolding hook_frame_def by blast+
  have 1: "out_channels module' = out_channels module \<and> unfold module' = unfold module \<and>
         input module' = input module \<and> conv2d.more module' = conv2d.more module"
    by (subst m, simp)+
  have 2: "(bias module = None \<longrightarrow> bias module' = None) \<and>
         (\<forall>b. bias module = Some b \<longrightarrow>
            (\<exists>b'. bias module' = Some b' \<and>
               b' = b\<lparr>grad_batch := grad_batch b', sum_grad_squared := sum_grad_squared b'\<rparr> \<and>
               (grad_batch b' \<noteq> grad_batch b \<longrightarrow> is_active CTX BATCH_GRAD \<and> requires_grad b) \<and>
               (sum_grad_squared b' \<noteq> sum_grad_squared b \<longrightarrow>
                  is_active CTX SUM_GRAD_SQUARED \<and> requires_grad b)))"
    using b by (cases "bias module"; cases "bias module'") (auto simp add: artifacts_only_def)
  show ?thesis
    using 1 2 w unfolding artifacts_only_def by blast
qed

text \<open>
  The theorem on the layer \<open>conv_1x1\<close> with both extensions active: all four artifacts
  are attached, and the cached input and the number of output channels are as before.
\<close>

theorem backward_hook_attaches_only_requested_artifacts_witness:
  "fst (compute_first_order_info dense ctx_first_order (conv_1x1 (Some x_two)) [] [g_two]) = None \<and>
   grad_batch (weight (snd (compute_first_order_info dense ctx_first_order (conv_1x1 (Some x_two)) [] [g_two])))
     = Some (plain [2, 1, 1, 1, 1] [1, 2]) \<and>
   sum_grad_squared (weight (snd (compute_first_order_info dense ctx_first_order (conv_1x1 (Some x_two)) [] [g_two])))
     = Some (plain [1, 1, 1, 1] [5]) \<and>
   map_option grad_batch (bias (snd (compute_first_order_info dense ctx_first_order (conv_1x1 (Some x_two)) [] [g_two])))
     = Some (Some (plain [2, 1] [1, 2])) \<and>
   map_option sum_grad_squared (bias (snd (compute_first_order_info dense ctx_first_order (conv_1x1 (Some x_two)) [] [g_two])))
     = Some (Some (plain [1] [5])) \<and>
   is_active ctx_first_order BATCH_GRAD \<and> is_active ctx_first_order SUM_GRAD_SQUARED \<and>
   requires_grad (weight (conv_1x1 (Some x_two))) \<and>
   input (snd (compute_first_order_info dense ctx_first_order (conv_1x1 (Some x_two)) [] [g_two])) = Some x_two \<and>
   out_channels (snd (compute_first_order_info dense ctx_first_order (conv_1x1 (Some x_two)) [] [g_two])) = 1"
proof -
  define res where "res = compute_first_order_info dense ctx_first_order (conv_1x1 (Some x_two)) [] [g_two]"
  have h: "compute_first_order_info dense ctx_first_order (conv_1x1 (Some x_two)) [] [g_two] = (fst res, snd res)"
    by (simp add: res_def)
  have e: "fst res = None"
    unfolding res_def by code_simp
  have w1: "grad_batch (weight (snd res)) = Some (plain [2, 1, 1, 1, 1] [1, 2])"
    unfolding res_def by code_simp
  have w2: "sum_grad_squared (weight (snd res)) = Some (plain [1, 1, 1, 1] [5])"
    unfolding res_def by code_simp
  have b1: "map_option grad_batch (bias (snd res)) = Some (Some (plain [2, 1] [1, 2]))"
    unfolding res_def by code_simp
  have b2: "map_option sum_grad_squared (bias (snd res)) = Some (Some (plain [1] [5]))"
    unfolding res_def by code_simp
  have old: "grad_batch (weight (conv_1x1 (Some x_two))) = None"
    "sum_grad_squared (weight (conv_1x1 (Some x_two))) = None"
    "input (conv_1x1 (Some x_two)) = Some x_two" "out_channels (conv_1x1 (Some x_two)) = 1"
    by (simp_all add: conv_1x1_def fresh_param_def)
  from backward_hook_attaches_only_requested_artifacts [OF h]
  have "is_active ctx_first_order BATCH_GRAD \<and> is_active ctx_first_order SUM_GRAD_SQUARED \<and>
        requires_grad (weight (conv_1x1 (Some x_two))) \<and>
        input (snd res) = Some x_two \<and> out_channels (snd res) = 1"
    using w1 w2 old by simp
  then show ?thesis
    using e w1 w2 b1 b2 unfolding res_def by blast
qed

section \<open>Sum of squared per-example gradients\<close>





lemma compute_weight_grad_batch_frame:
  assumes "hook_frame a b m m'"
  shows "compute_weight_grad_batch T m' g = compute_weight_grad_batch T m g"
proof -
  from assms have m': "m' = m\<lparr>weight := weight m', bias := bias m'\<rparr>"
    and w: "weight m' = (weight m)\<lparr>grad_batch := grad_batch (weight m'),
                sum_grad_squared := sum_grad_squared (weight m')\<rparr>"
    unfolding hook_frame_def artifacts_only_def by blast+
  have "input m' = input m" "unfold m' = unfold m" "out_channels m' = out_channels m"
    by (subst m', simp)+
  moreover have "shape (weight m') = shape (weight m)"
    by (subst w) simp
  ultimately show ?thesis
    unfolding compute_weight_grad_batch_def get_input_def by simp
qed











section \<open>Merging and splitting a parallel composite\<close>

text \<open>Ceiling division on the natural numbers.\<close>

lemma ceil_floor:
  assumes "0 < (k::nat)"
  shows "(t + k - 1) div k = (if t mod k = 0 then t div k else t div k + 1)"
proof (cases "t mod k = 0")
  case True
  then have "t + k - 1 = (k - 1) + (t div k) * k"
    using assms by (metis Nat.add_diff_assoc2 One_nat_def Suc_leI add.commute mult.commute mult_div_mod_eq add.right_neutral)
  then have "(t + k - 1) div k = t div k + (k - 1) div k"
    using assms by (simp only: div_mult_self1) 
  then show ?thesis
    using True assms by simp
next
  case False
  then have pos: "0 < t mod k" by simp
  from pos obtain r where r: "t mod k = Suc r"
    by (cases "t mod k") auto
  have "t = (t div k) * k + t mod k" by simp
  then have "t = (t div k) * k + Suc r"
    unfolding r .
  then have "t + k - 1 = r + (t div k + 1) * k"
    by simp
  then have "t + k - 1 = (t mod k - 1) + (t div k + 1) * k"
    using r by simp
  then have "(t + k - 1) div k = (t div k + 1) + (t mod k - 1) div k"
    using assms by (simp only: div_mult_self1)
  moreover have "t mod k - 1 < k"
    using assms by (meson less_imp_diff_less mod_less_divisor)
  ultimately show ?thesis
    using False by simp
qed


lemma sorted_wrt_replicate: "sorted_wrt (\<lambda>x y. y \<le> x) (replicate n (v::nat))"
  by (induction n) auto

lemma cofl_length:
  assumes "1 \<le> k"
  shows "length (compute_out_features_list c k) \<le> k"
proof -
  have "total_out_features c mod k \<le> k"
    using assms by (simp add: less_imp_le)
  then show ?thesis
    unfolding compute_out_features_list_def Let_def by simp
qed

lemma cofl_sizes:
  assumes "1 \<le> k" and "b \<in> set (compute_out_features_list c k)"
  shows "b = (total_out_features c + k - 1) div k \<or> b = total_out_features c div k"
proof (cases "k \<ge> total_out_features c")
  case True
  with assms have b: "b = 1" and pos: "0 < total_out_features c"
    unfolding compute_out_features_list_def Let_def by (auto split: if_splits)
  show ?thesis
  proof (cases "total_out_features c = k")
    case True
    then show ?thesis using b assms by simp
  next
    case False
    with \<open>k \<ge> total_out_features c\<close> have "total_out_features c < k" by simp
    then show ?thesis
      using b pos assms ceil_floor[of k "total_out_features c"] by simp
  qed
next
  case False
  with assms show ?thesis
    unfolding compute_out_features_list_def Let_def by (auto split: if_splits)
qed

lemma cofl_sorted:
  assumes "1 \<le> k"
  shows "sorted_wrt (\<ge>) (compute_out_features_list c k)"
proof -
  have "total_out_features c div k \<le> (total_out_features c + k - 1) div k"
    using assms ceil_floor[of k "total_out_features c"] by simp
  then show ?thesis
    unfolding compute_out_features_list_def Let_def
    by (auto simp add: sorted_wrt_append sorted_wrt_replicate)
qed

lemma cofl_sum:
  assumes "1 \<le> k"
  shows "sum_list (compute_out_features_list c k) = total_out_features c"
proof (cases "k \<ge> total_out_features c")
  case True
  then show ?thesis
    unfolding compute_out_features_list_def Let_def by (simp add: sum_list_replicate)
next
  case False
  define t where "t = total_out_features c"
  have k: "0 < k" using assms by simp
  have split_t: "t = (t div k) * k + t mod k" by simp
  have le: "t mod k \<le> k" using k by (simp add: less_imp_le)
  have "t mod k * ((t + k - 1) div k) + (k - t mod k) * (t div k) = t"
  proof (cases "t mod k = 0")
    case True
    then have "k * (t div k) = t" by auto
    moreover have "(t + k - 1) div k = t div k"
      using ceil_floor[OF k, of t] True by simp
    ultimately show ?thesis using True by simp
  next
    case False
    then have cf: "(t + k - 1) div k = t div k + 1"
      using ceil_floor[OF k, of t] by simp
    have "t mod k * ((t + k - 1) div k) + (k - t mod k) * (t div k)
        = t mod k * (t div k) + t mod k + (k - t mod k) * (t div k)"
      unfolding cf by simp
    also have "\<dots> = (t mod k + (k - t mod k)) * (t div k) + t mod k"
      by (simp add: algebra_simps)
    also have "\<dots> = k * (t div k) + t mod k"
      using le by simp
    also have "\<dots> = t" by simp
    finally show ?thesis .
  qed
  then show ?thesis
    using False unfolding compute_out_features_list_def Let_def t_def
    by (simp add: sum_list_replicate)
qed

lemma cofl_units:
  "k \<ge> total_out_features c \<Longrightarrow> compute_out_features_list c k = replicate (total_out_features c) 1"
  unfolding compute_out_features_list_def Let_def by simp

text \<open>
  Claim C2. For every composite and every target block count \<open>k \<ge> 1\<close>, the merge
  partition has at most \<open>k\<close> blocks, every block has size \<open>\<lceil>T / k\<rceil>\<close> or
  \<open>\<lfloor>T / k\<rfloor>\<close> (\<open>T\<close> the total), the sizes are in descending order, they add up
  to \<open>T\<close>, and for \<open>k \<ge> T\<close> the partition is \<open>T\<close> unit blocks. For the sibling sizes
  3, 2, 5: four blocks are 3, 3, 2, 2; six blocks are 2, 2, 2, 2, 1, 1; ten and fifteen
  blocks are ten unit blocks.
\<close>

theorem merge_partition_shape:
  assumes "1 \<le> k"
  shows "length (compute_out_features_list c k) \<le> k \<and>
         (\<forall>b \<in> set (compute_out_features_list c k).
            b = (total_out_features c + k - 1) div k \<or> b = total_out_features c div k) \<and>
         sorted_wrt (\<ge>) (compute_out_features_list c k) \<and>
         sum_list (compute_out_features_list c k) = total_out_features c \<and>
         (k \<ge> total_out_features c \<longrightarrow>
            compute_out_features_list c k = replicate (total_out_features c) 1) \<and>
         total_out_features [3, 2, 5] = 10 \<and>
         merge [3, 2, 5] 4 = [3, 3, 2, 2] \<and>
         merge [3, 2, 5] 6 = [2, 2, 2, 2, 1, 1] \<and>
         merge [3, 2, 5] 10 = replicate 10 1 \<and>
         merge [3, 2, 5] 15 = replicate 10 1"
proof -
  have examples: "total_out_features [3, 2, 5] = 10 \<and>
         merge [3, 2, 5] 4 = [3, 3, 2, 2] \<and>
         merge [3, 2, 5] 6 = [2, 2, 2, 2, 1, 1] \<and>
         merge [3, 2, 5] 10 = replicate 10 1 \<and>
         merge [3, 2, 5] 15 = replicate 10 1"
    by code_simp
  show ?thesis
    using cofl_length[OF assms, of c] cofl_sizes[OF assms, of _ c] cofl_sorted[OF assms, of c]
      cofl_sum[OF assms, of c] cofl_units[of c k] examples
    by blast
qed

theorem merge_partition_shape_witness:
  "(1::nat) \<le> 3 \<and> compute_out_features_list [3, 2, 5] 3 = [4, 3, 3] \<and>
   length (compute_out_features_list [3, 2, 5] 3) \<le> 3 \<and>
   sum_list (compute_out_features_list [3, 2, 5] 3) = total_out_features [3, 2, 5] \<and>
   (total_out_features [3, 2, 5] + 3 - 1) div 3 = 4 \<and> total_out_features [3, 2, 5] div 3 = 3 \<and>
   12 \<ge> total_out_features [3, 2, 5] \<and>
   compute_out_features_list [3, 2, 5] 12 = replicate (total_out_features [3, 2, 5]) 1"
proof -
  have k3: "(1::nat) \<le> 3" and k12: "(1::nat) \<le> 12"
    by simp_all
  have v: "compute_out_features_list [3, 2, 5] 3 = [4, 3, 3]"
    "(total_out_features [3, 2, 5] + 3 - 1) div 3 = 4" "total_out_features [3, 2, 5] div 3 = 3"
    "12 \<ge> total_out_features [3, 2, 5]"
    by code_simp+
  show ?thesis
    using merge_partition_shape [OF k3, of "[3, 2, 5]"] merge_partition_shape [OF k12, of "[3, 2, 5]"] v
    by simp
qed

text \<open>
  Claim C4. For every composite and every target block count \<open>k \<ge> 1\<close>, a merge into
  \<open>k\<close> blocks followed by a split with the original sibling sizes succeeds and gives
  back the original partition: the same total and the same merge partition for every
  block count.
\<close>

theorem merge_then_split_round_trip:
  assumes "1 \<le> k"
  shows "split (merge c k) c = Inr c \<and>
         (\<forall>c'. split (merge c k) c = Inr c' \<longrightarrow>
            total_out_features c' = total_out_features c \<and>
            (\<forall>k'. compute_out_features_list c' k' = compute_out_features_list c k'))"
proof -
  have "split (merge c k) c = Inr c"
    using cofl_sum[OF assms, of c]
    by (simp add: split_def merge_def total_out_features_def)
  then show ?thesis
    by simp
qed

theorem merge_then_split_round_trip_witness:
  "(1::nat) \<le> 4 \<and> merge [3, 2, 5] 4 = [3, 3, 2, 2] \<and>
   split (merge [3, 2, 5] 4) [3, 2, 5] = Inr [3, 2, 5] \<and>
   split (merge [3, 2, 5] 4) [3, 2] = Inl SizeMismatch"
proof -
  have k4: "(1::nat) \<le> 4"
    by simp
  have m: "merge [3, 2, 5] 4 = [3, 3, 2, 2]"
    by code_simp
  have bad: "split (merge [3, 2, 5] 4) [3, 2] = Inl SizeMismatch"
    by code_simp
  show ?thesis
    using merge_then_split_round_trip [OF k4, of "[3, 2, 5]"] m bad
    by simp
qed

section \<open>Loss layers without a pointwise Hessian\<close>

text \<open>
  Claim C5. At an input where the Hessian of a loss layer is not defined pointwise, each
  of \<open>sum_hessian\<close>, \<open>sqrt_hessian\<close> and \<open>sqrt_hessian_sampled\<close> fails with
  \<open>HessianUndefined\<close>; at an input where it is defined, all three return a value.
\<close>

theorem loss_hessian_undefined_fails:
  "(hessian_at layer x = None \<longrightarrow>
      sum_hessian layer x = Inl HessianUndefined \<and>
      sqrt_hessian layer x = Inl HessianUndefined \<and>
      sqrt_hessian_sampled layer x M = Inl HessianUndefined) \<and>
   (hessian_at layer x \<noteq> None \<longrightarrow>
      (\<exists>h. sum_hessian layer x = Inr h) \<and>
      (\<exists>s. sqrt_hessian layer x = Inr s) \<and>
      (\<exists>s. sqrt_hessian_sampled layer x M = Inr s))"
  by (cases "hessian_at layer x")
     (simp_all add: sum_hessian_def sqrt_hessian_def sqrt_hessian_sampled_def)

theorem loss_hessian_undefined_fails_witness:
  "hessian_at square_loss [] = None \<and>
   sum_hessian square_loss [] = Inl HessianUndefined \<and>
   sqrt_hessian square_loss [] = Inl HessianUndefined \<and>
   sqrt_hessian_sampled square_loss [] 100000 = Inl HessianUndefined \<and>
   hessian_at square_loss [1, 5] \<noteq> None \<and>
   sum_hessian square_loss [1, 5] = Inr 4 \<and>
   sqrt_hessian square_loss [1, 5] = Inr [2, 2] \<and>
   sqrt_hessian_sampled square_loss [1, 5] 100000 = Inr [2, 2]"
proof -
  have u: "hessian_at square_loss [] = None"
    by (simp add: square_loss_def)
  have d: "hessian_at square_loss [1, 5] \<noteq> None"
    by (simp add: square_loss_def)
  have v: "sum_hessian square_loss [1, 5] = Inr 4" "sqrt_hessian square_loss [1, 5] = Inr [2, 2]"
    "sqrt_hessian_sampled square_loss [1, 5] 100000 = Inr [2, 2]"
    by (simp_all add: square_loss_def sum_hessian_def sqrt_hessian_def sqrt_hessian_sampled_def)
  show ?thesis
    using loss_hessian_undefined_fails [of square_loss "[]" 100000]
      loss_hessian_undefined_fails [of square_loss "[1, 5]" 100000] u d v
    by simp
qed

end
